theory Spec2Isabelle
  imports Complex_Main "HOL-Library.Log_Nat"
begin

section \<open>Python values used by the two scripts\<close>

subsection \<open>Strings\<close>

text \<open>
  A Python \<open>str\<close> is modelled by the bytes of its UTF-8 encoding, a HOL \<open>string\<close>.
  The scripts only compare strings with ASCII literals, test ASCII suffixes and
  substrings, search an ASCII pattern and cut four characters that were just checked to
  be ASCII; all of these give the same answer on the UTF-8 bytes as on the code points.
\<close>

definition endswith :: "string \<Rightarrow> string \<Rightarrow> bool" where
  "endswith s suffix =
     (length suffix \<le> length s \<and> drop (length s - length suffix) s = suffix)"

definition startswith :: "string \<Rightarrow> string \<Rightarrow> bool" where
  "startswith s prefix = (take (length prefix) s = prefix)"

text \<open>\<open>needle in s\<close>.\<close>

fun contains :: "string \<Rightarrow> string \<Rightarrow> bool" where
  "contains needle [] = (needle = [])"
| "contains needle (c # cs) = (startswith (c # cs) needle \<or> contains needle cs)"

text \<open>
  \<open>str.lower\<close> on the ASCII letters. (On other characters Python's \<open>lower\<close> never
  produces one of the characters of \<open>.png\<close>, the only use made of it.)
\<close>

definition ascii_lower :: "char \<Rightarrow> char" where
  "ascii_lower c =
     (if (65::nat) \<le> of_char c \<and> of_char c \<le> (90::nat)
      then char_of (of_char c + (32::nat)) else c)"

definition lower :: "string \<Rightarrow> string" where
  "lower s = map ascii_lower s"

text \<open>\<open>s[:-4]\<close>: the string without its last four characters (empty when it has fewer).\<close>

definition drop_last4 :: "string \<Rightarrow> string" where
  "drop_last4 s = take (length s - 4) s"

text \<open>\<open>str(n)\<close> for a non-negative integer, as the f-string of the count prints it.\<close>

function str_nat :: "nat \<Rightarrow> string" where
  "str_nat n =
     (if n < 10 then [char_of (48 + n)]
      else str_nat (n div 10) @ [char_of (48 + n mod 10)])"
  by pat_completeness auto
termination
  by (relation "measure id") auto

text \<open>The Greek letter mu (U+03BC) of the labels, in UTF-8.\<close>

definition mu :: string where
  "mu = [CHR 0xCE, CHR 0xBC]"

subsection \<open>The pattern of \<open>detect_scope_type_from_filename\<close>\<close>

text \<open>
  \<^verbatim>\<open>4X_1(?:\.6)?X|10X_1(?:\.6)?X|40X_1(?:\.6)?X\<close> with \<open>re.IGNORECASE\<close>.
  \<open>re.search\<close> returns the match at the leftmost position where one exists; at a
  position the alternatives are tried in the order written, and the optional group is
  tried present first. The only letter of the pattern is \<open>X\<close>, which under
  \<open>IGNORECASE\<close> matches \<open>X\<close> and \<open>x\<close>.
\<close>

definition ci_eq :: "char \<Rightarrow> char \<Rightarrow> bool" where
  "ci_eq p c = (ascii_lower p = ascii_lower c)"

text \<open>The literal \<open>p\<close> matches at the head of \<open>s\<close>, ignoring case.\<close>

fun match_literal :: "string \<Rightarrow> string \<Rightarrow> bool" where
  "match_literal [] s = True"
| "match_literal (p # ps) [] = False"
| "match_literal (p # ps) (c # cs) = (ci_eq p c \<and> match_literal ps cs)"

text \<open>
  One alternative, \<open>magnification\<close> followed by \<^verbatim>\<open>_1(?:\.6)?X\<close>, at the head of
  \<open>s\<close>: the number of characters it matches.
\<close>

definition match_alternative :: "string \<Rightarrow> string \<Rightarrow> nat option" where
  "match_alternative magnification s =
     (if match_literal (magnification @ ''_1.6X'') s then Some (length magnification + 5)
      else if match_literal (magnification @ ''_1X'') s then Some (length magnification + 3)
      else None)"

definition match_here :: "string \<Rightarrow> nat option" where
  "match_here s =
     (case match_alternative ''4X'' s of
        Some n \<Rightarrow> Some n
      | None \<Rightarrow>
          (case match_alternative ''10X'' s of
             Some n \<Rightarrow> Some n
           | None \<Rightarrow> match_alternative ''40X'' s))"

text \<open>\<open>re.search\<close>: the matched text (\<open>match.group()\<close>), or \<open>None\<close>.\<close>

fun re_search :: "string \<Rightarrow> string option" where
  "re_search [] = None"
| "re_search (c # cs) =
     (case match_here (c # cs) of
        Some n \<Rightarrow> Some (take n (c # cs))
      | None \<Rightarrow> re_search cs)"

definition detect_scope_type_from_filename :: "string \<Rightarrow> string" where
  "detect_scope_type_from_filename image_path =
     (case re_search image_path of Some matched \<Rightarrow> matched | None \<Rightarrow> [])"

subsection \<open>Floats\<close>

text \<open>
  A Python \<open>float\<close> is an IEEE binary64 number, here the rational it denotes. \<open>fl\<close>
  rounds a rational to the nearest number with a 53-bit significand, ties to even
  (overflow and subnormal numbers do not occur at the magnitudes of the scripts). A
  float literal and every float operation round their exact result; \<open>int(x)\<close>
  truncates toward zero.
\<close>

definition pow2 :: "int \<Rightarrow> rat" where
  "pow2 k = (if 0 \<le> k then 2 ^ nat k else 1 / 2 ^ nat (- k))"

text \<open>The exponent \<open>e\<close> with \<open>2 ^ e \<le> a < 2 ^ (e + 1)\<close>, for \<open>a > 0\<close>.\<close>

definition ilog2 :: "rat \<Rightarrow> int" where
  "ilog2 a =
     (let (n, d) = quotient_of a; k = bitlen n - bitlen d
      in if pow2 k \<le> a then k else k - 1)"

definition round_half_even :: "rat \<Rightarrow> int" where
  "round_half_even m =
     (let f = \<lfloor>m\<rfloor>; r = m - of_int f
      in if r < 1 / 2 then f
         else if 1 / 2 < r then f + 1
         else if even f then f else f + 1)"

definition fl :: "rat \<Rightarrow> rat" where
  "fl q =
     (if q = 0 then 0
      else let a = \<bar>q\<bar>; u = pow2 (ilog2 a - 52)
           in sgn q * of_int (round_half_even (a / u)) * u)"

definition float_of_int :: "int \<Rightarrow> rat" where
  "float_of_int i = fl (of_int i)"

definition fmul :: "rat \<Rightarrow> rat \<Rightarrow> rat" where
  "fmul a b = fl (a * b)"

definition fsub :: "rat \<Rightarrow> rat \<Rightarrow> rat" where
  "fsub a b = fl (a - b)"

definition fadd :: "rat \<Rightarrow> rat \<Rightarrow> rat" where
  "fadd a b = fl (a + b)"

text \<open>\<open>a // b\<close> on floats.\<close>

definition ffloordiv :: "rat \<Rightarrow> rat \<Rightarrow> rat" where
  "ffloordiv a b = fl (of_int \<lfloor>a / b\<rfloor>)"

definition py_int :: "rat \<Rightarrow> int" where
  "py_int q = (if 0 \<le> q then \<lfloor>q\<rfloor> else - \<lfloor>- q\<rfloor>)"

section \<open>The environment and the effects of a run\<close>

text \<open>
  Of a decoded image the scripts read only \<open>shape[0]\<close> (rows) and \<open>shape[1]\<close>
  (columns); the pixels are touched by library calls alone.
\<close>

record image =
  shape0 :: nat
  shape1 :: nat

text \<open>The library calls made after the checks, in the order of the source.\<close>

datatype lib_call =
    cv2_rectangle
  | cv2_cvtColor_BGR2RGB
  | Image_fromarray
  | ImageFont_truetype
  | ImageDraw_Draw
  | draw_textlength
  | draw_text
  | np_asarray
  | cv2_cvtColor_RGB2BGR
  | cv2_imwrite

datatype py_exception =
    AttributeError
  | LibraryError lib_call

text \<open>
  What a run reads from outside: the file system (\<open>os.path\<close>, \<open>glob.glob\<close> on
  \<open>os.path.join(directory, pattern)\<close>, \<open>cv2.imread\<close>, which returns \<open>None\<close> for a
  file it cannot decode), \<open>sys.platform\<close>, the path of the font bundled beside the
  script (\<open>os.path.join(os.path.dirname(__file__), "Arial.ttf")\<close>), the width the
  loaded font gives a text, and whether a library call raises while a given file is
  processed. Neither script has a \<open>try\<close>, so an exception raised anywhere ends the run.
\<close>

record env =
  path_exists :: "string \<Rightarrow> bool"
  path_isdir :: "string \<Rightarrow> bool"
  path_isfile :: "string \<Rightarrow> bool"
  glob :: "string \<Rightarrow> string \<Rightarrow> string list"
  imread :: "string \<Rightarrow> image option"
  platform :: string
  bundled_font :: string
  textlength :: "string \<Rightarrow> nat \<Rightarrow> string \<Rightarrow> rat"
  lib_raises :: "string \<Rightarrow> lib_call \<Rightarrow> bool"

text \<open>
  What a run does: lines printed, the filled rectangle drawn (\<open>pt1\<close>, \<open>pt2\<close>, colour),
  the text drawn (position, text, font path, font size, fill), files written; and, as a
  marker, each call of \<open>add_scale_bar\<close> made by a directory walk or by the main block.
\<close>

datatype event =
    Print string
  | Rectangle "int \<times> int" "int \<times> int" "nat \<times> nat \<times> nat"
  | DrawText "rat \<times> int" string string nat "nat \<times> nat \<times> nat"
  | Imwrite string
  | Call_add_scale_bar string

text \<open>A run: its events, and the exception that ended it, if one did.\<close>

type_synonym run = "event list \<times> py_exception option"

definition returns :: "event list \<Rightarrow> run" where
  "returns evs = (evs, None)"

definition raises :: "py_exception \<Rightarrow> run" where
  "raises e = ([], Some e)"

text \<open>Events, followed by the rest of the function.\<close>

definition emit :: "event list \<Rightarrow> run \<Rightarrow> run" where
  "emit evs rest = (evs @ fst rest, snd rest)"

text \<open>A library call with the events it causes, followed by the rest of the function.\<close>

definition lib :: "env \<Rightarrow> string \<Rightarrow> lib_call \<Rightarrow> event list \<Rightarrow> run \<Rightarrow> run" where
  "lib env image_path c evs rest =
     (if lib_raises env image_path c then raises (LibraryError c) else emit evs rest)"

text \<open>One run after another; the second does not start when the first raised.\<close>

definition then_run :: "run \<Rightarrow> run \<Rightarrow> run" where
  "then_run r rest = (case snd r of None \<Rightarrow> emit (fst r) rest | Some e \<Rightarrow> r)"

text \<open>The files written and the calls of \<open>add_scale_bar\<close> among the events of a run.\<close>

fun written :: "event list \<Rightarrow> string list" where
  "written [] = []"
| "written (Imwrite p # evs) = p # written evs"
| "written (e # evs) = written evs"

fun calls :: "event list \<Rightarrow> string list" where
  "calls [] = []"
| "calls (Call_add_scale_bar p # evs) = p # calls evs"
| "calls (e # evs) = calls evs"

definition exit_code :: "run \<Rightarrow> nat" where
  "exit_code r = (case snd r of None \<Rightarrow> 0 | Some e \<Rightarrow> 1)"

section \<open>The part the two scripts share\<close>

text \<open>
  Both modules define the same constants with different values, and from the
  \<open>DISPLAY_SCALE_NUMBER\<close> test to the last \<open>print\<close> their \<open>add_scale_bar\<close> have the
  same text but for the suffix of the output path. The constants of a module are a
  record; the shared text is \<open>draw_and_save\<close>.
\<close>

record constants =
  DISPLAY_SCALE_NUMBER :: bool
  scale_bar_location_x_offset :: int
  scale_bar_location_y_offset :: int
  scale_bar_font_size :: nat
  text_position_y_offset :: int
  scale_bar_thickness :: int
  scale_bar_color :: "nat \<times> nat \<times> nat"
  scaled_suffix :: string

definition IX71 :: constants where
  "IX71 = \<lparr>DISPLAY_SCALE_NUMBER = True,
           scale_bar_location_x_offset = 60,
           scale_bar_location_y_offset = 80,
           scale_bar_font_size = 45,
           text_position_y_offset = 60,
           scale_bar_thickness = 30,
           scale_bar_color = (255, 255, 255),
           scaled_suffix = ''_scaled.tif''\<rparr>"

definition gcode :: constants where
  "gcode = \<lparr>DISPLAY_SCALE_NUMBER = False,
            scale_bar_location_x_offset = 10,
            scale_bar_location_y_offset = 35,
            scale_bar_font_size = 50,
            text_position_y_offset = 50,
            scale_bar_thickness = 25,
            scale_bar_color = (0, 0, 0),
            scaled_suffix = ''_scaled.png''\<rparr>"

definition msg_unsupported :: string where
  "msg_unsupported =
     ''Unsupported operating system. Please run this script on MacOS, Windows, or Linux.''"

definition font_path :: "env \<Rightarrow> string option" where
  "font_path env =
     (if platform env = ''darwin'' then Some (bundled_font env)
      else if platform env = ''win32'' then Some ''arial.ttf''
      else if startswith (platform env) ''linux''
        then Some ''/usr/share/fonts/truetype/liberation/LiberationSans-Regular.ttf''
      else None)"

definition displayed_label :: "constants \<Rightarrow> string \<Rightarrow> string" where
  "displayed_label K label = (if DISPLAY_SCALE_NUMBER K then label else [])"

definition bar_position :: "constants \<Rightarrow> image \<Rightarrow> int \<Rightarrow> int \<times> int" where
  "bar_position K img scale_bar_size =
     (int (shape1 img) - scale_bar_size - scale_bar_location_x_offset K,
      int (shape0 img) - scale_bar_location_y_offset K)"

definition text_position :: "constants \<Rightarrow> int \<times> int \<Rightarrow> int \<Rightarrow> rat \<Rightarrow> rat \<times> int" where
  "text_position K position scale_bar_size text_width =
     (fadd (float_of_int (fst position))
        (ffloordiv (fsub (float_of_int scale_bar_size) text_width) (float_of_int 2)),
      snd position - text_position_y_offset K)"

definition output_path :: "constants \<Rightarrow> string \<Rightarrow> string" where
  "output_path K image_path = drop_last4 image_path @ scaled_suffix K"

definition draw_and_save ::
  "constants \<Rightarrow> env \<Rightarrow> string \<Rightarrow> image \<Rightarrow> int \<Rightarrow> string \<Rightarrow> run" where
  "draw_and_save K env image_path img scale_bar_size label0 =
     (let label = displayed_label K label0;
          position = bar_position K img scale_bar_size
      in lib env image_path cv2_rectangle
           [Rectangle position
              (fst position + scale_bar_size, snd position + scale_bar_thickness K)
              (scale_bar_color K)]
        (lib env image_path cv2_cvtColor_BGR2RGB []
        (lib env image_path Image_fromarray []
        (case font_path env of
           None \<Rightarrow> returns [Print msg_unsupported]
         | Some font \<Rightarrow>
            lib env image_path ImageFont_truetype []
           (lib env image_path ImageDraw_Draw []
           (lib env image_path draw_textlength []
           (lib env image_path draw_text
              [DrawText
                 (text_position K position scale_bar_size
                    (textlength env font (scale_bar_font_size K) label))
                 label font (scale_bar_font_size K) (scale_bar_color K)]
           (lib env image_path np_asarray []
           (lib env image_path cv2_cvtColor_RGB2BGR []
           (lib env image_path cv2_imwrite [Imwrite (output_path K image_path)]
           (returns
              [Print (''Scale bar added to '' @ output_path K image_path)])))))))))))"

section \<open>add_scale_bar_IX71.py\<close>

definition scale_pixel_4X_1X_100_um :: int where
  "scale_pixel_4X_1X_100_um = 53"

definition scale_pixel_10X_1X_100_um :: int where
  "scale_pixel_10X_1X_100_um = 132"

definition scale_pixel_40X_1X_100_um :: int where
  "scale_pixel_40X_1X_100_um = 540"

definition msg_not_exist :: string where
  "msg_not_exist = ''The image does not exist. Please provide a valid image.''"

definition msg_must_be_tif :: string where
  "msg_must_be_tif = ''The image must be in .tif format. Please provide a valid image.''"

definition msg_size :: string where
  "msg_size = ''The image must be 1920x1440 in size. Please provide a valid image.''"

definition msg_detect_failed :: string where
  "msg_detect_failed =
     ''Failed to detect scope type from filename. Please add magnification to the filename or use the proper command-line argument.''"

definition msg_invalid_scope :: string where
  "msg_invalid_scope =
     ''Invalid scope type. Please use 4X_1X, 4X_1.6X, 10X_1X, 10X_1.6X, 40X_1X, or 40X_1.6X.''"

definition msg_invalid_path :: string where
  "msg_invalid_path =
     ''The provided path does not exist or is not a valid image or directory.''"

text \<open>
  The \<open>if\<close>/\<open>elif\<close> chain on \<open>scope_type\<close>: the bar size and the label, or \<open>None\<close>
  in the \<open>else\<close> branch. The products of an integer with floats are float products,
  taken from the left.
\<close>

definition scale_bar_size_and_label :: "string \<Rightarrow> (int \<times> string) option" where
  "scale_bar_size_and_label scope_type =
     (if scope_type = ''4X_1X''
        then Some (scale_pixel_4X_1X_100_um * 3, ''300 '' @ mu @ ''m'')
      else if scope_type = ''4X_1.6X''
        then Some (py_int (fmul (fmul (float_of_int scale_pixel_4X_1X_100_um)
                     (fl (16 / 10))) (float_of_int 2)),
                   ''200 '' @ mu @ ''m'')
      else if scope_type = ''10X_1X''
        then Some (py_int (fmul (float_of_int scale_pixel_10X_1X_100_um) (fl (15 / 10))),
                   ''150 '' @ mu @ ''m'')
      else if scope_type = ''10X_1.6X''
        then Some (py_int (fmul (float_of_int scale_pixel_10X_1X_100_um) (fl (16 / 10))),
                   ''100 '' @ mu @ ''m'')
      else if scope_type = ''40X_1X''
        then Some (py_int (fmul (float_of_int scale_pixel_40X_1X_100_um) (fl (5 / 10))),
                   ''50 '' @ mu @ ''m'')
      else if scope_type = ''40X_1.6X''
        then Some (py_int (fmul (fmul (float_of_int scale_pixel_40X_1X_100_um)
                     (fl (16 / 10))) (fl (3 / 10))),
                   ''30 '' @ mu @ ''m'')
      else None)"

text \<open>From the comment \<open>Define the scale bar size\<close> to the end of the function.\<close>

definition annotate_IX71 :: "env \<Rightarrow> string \<Rightarrow> image \<Rightarrow> string \<Rightarrow> run" where
  "annotate_IX71 env image_path img scope_type =
     (case scale_bar_size_and_label scope_type of
        None \<Rightarrow> returns [Print msg_invalid_scope]
      | Some (scale_bar_size, label) \<Rightarrow>
          draw_and_save IX71 env image_path img scale_bar_size label)"

text \<open>\<open>if not scope_type:\<close> with the detection from the file name.\<close>

definition detect_and_annotate_IX71 :: "env \<Rightarrow> string \<Rightarrow> image \<Rightarrow> run" where
  "detect_and_annotate_IX71 env image_path img =
     (let scope_type = detect_scope_type_from_filename image_path
      in if scope_type = [] then returns [Print msg_detect_failed]
         else annotate_IX71 env image_path img scope_type)"

text \<open>
  \<open>add_scale_bar(image_path, scope_type)\<close>; \<open>scope_type\<close> is \<open>None\<close> or a string, and
  \<open>not scope_type\<close> holds of \<open>None\<close> and of the empty string. The test
  \<open>image is None or image.shape[0] != 1440 or image.shape[1] != 1920\<close> is evaluated
  from the left.
\<close>

definition add_scale_bar_IX71 :: "env \<Rightarrow> string \<Rightarrow> string option \<Rightarrow> run" where
  "add_scale_bar_IX71 env image_path scope_type =
     (if \<not> path_exists env image_path then returns [Print msg_not_exist]
      else if \<not> endswith image_path ''.tif'' then returns [Print msg_must_be_tif]
      else
        (case imread env image_path of
           None \<Rightarrow> returns [Print msg_size]
         | Some img \<Rightarrow>
             if shape0 img \<noteq> 1440 then returns [Print msg_size]
             else if shape1 img \<noteq> 1920 then returns [Print msg_size]
             else
               (case scope_type of
                  None \<Rightarrow> detect_and_annotate_IX71 env image_path img
                | Some given \<Rightarrow>
                    if given = [] then detect_and_annotate_IX71 env image_path img
                    else annotate_IX71 env image_path img given)))"

fun process_files_IX71 :: "env \<Rightarrow> string option \<Rightarrow> string list \<Rightarrow> run" where
  "process_files_IX71 env scope_type [] = returns []"
| "process_files_IX71 env scope_type (image_file # files) =
     (if \<not> endswith image_file ''_scaled.tif''
      then emit [Call_add_scale_bar image_file]
             (then_run (add_scale_bar_IX71 env image_file scope_type)
                (process_files_IX71 env scope_type files))
      else process_files_IX71 env scope_type files)"

definition process_directory_IX71 :: "env \<Rightarrow> string \<Rightarrow> string option \<Rightarrow> run" where
  "process_directory_IX71 env directory_path scope_type =
     process_files_IX71 env scope_type (glob env directory_path ''*.tif'')"

text \<open>The main block, after \<open>argparse\<close> has read \<open>path\<close> and the optional \<open>scope_type\<close>.\<close>

definition main_IX71 :: "env \<Rightarrow> string \<Rightarrow> string option \<Rightarrow> run" where
  "main_IX71 env path scope_type =
     (if path_isdir env path then process_directory_IX71 env path scope_type
      else if path_isfile env path
        then emit [Call_add_scale_bar path] (add_scale_bar_IX71 env path scope_type)
      else returns [Print msg_invalid_path])"

section \<open>_scale_bar_gcode_images.py\<close>

definition scale_pixel_1000_um :: int where
  "scale_pixel_1000_um = 24"

definition msg_must_be_png :: "string \<Rightarrow> string" where
  "msg_must_be_png image_path =
     ''Skipping '' @ image_path @ '': The image must be in .png format.''"

definition msg_not_directory :: "string \<Rightarrow> string" where
  "msg_not_directory directory_path =
     ''Error: '' @ directory_path @ '' is not a valid directory.''"

definition msg_no_png :: "string \<Rightarrow> string" where
  "msg_no_png directory_path = ''No PNG files found in '' @ directory_path"

definition msg_complete :: "nat \<Rightarrow> string" where
  "msg_complete processed_count =
     CHR 0x0A # ''Processing complete: '' @ str_nat processed_count @ '' images processed''"

text \<open>
  \<open>add_scale_bar(image_path)\<close>. The result of \<open>cv2.imread\<close> is not tested: on \<open>None\<close>
  the first \<open>image.shape\<close> raises \<open>AttributeError\<close>.
\<close>

definition add_scale_bar_gcode :: "env \<Rightarrow> string \<Rightarrow> run" where
  "add_scale_bar_gcode env image_path =
     (if \<not> path_exists env image_path then returns [Print msg_not_exist]
      else if \<not> endswith (lower image_path) ''.png''
        then returns [Print (msg_must_be_png image_path)]
      else
        (case imread env image_path of
           None \<Rightarrow> raises AttributeError
         | Some img \<Rightarrow>
             draw_and_save gcode env image_path img (scale_pixel_1000_um * 10) ''1 cm''))"

text \<open>The \<open>for\<close> loop of \<open>process_directory\<close> and the \<open>print\<close> after it.\<close>

fun process_files_gcode :: "env \<Rightarrow> nat \<Rightarrow> string list \<Rightarrow> run" where
  "process_files_gcode env processed_count [] =
     returns [Print (msg_complete processed_count)]"
| "process_files_gcode env processed_count (image_path # files) =
     (if contains ''_scaled'' image_path
      then process_files_gcode env processed_count files
      else emit [Call_add_scale_bar image_path]
             (then_run (add_scale_bar_gcode env image_path)
                (process_files_gcode env (processed_count + 1) files)))"

definition process_directory_gcode :: "env \<Rightarrow> string \<Rightarrow> run" where
  "process_directory_gcode env directory_path =
     (if \<not> path_isdir env directory_path
        then returns [Print (msg_not_directory directory_path)]
      else let png_files = glob env directory_path ''*.png''
           in if png_files = [] then returns [Print (msg_no_png directory_path)]
              else process_files_gcode env 0 png_files)"

definition main_gcode :: "env \<Rightarrow> string \<Rightarrow> run" where
  "main_gcode env path =
     (if path_isdir env path then process_directory_gcode env path
      else if path_isfile env path
        then emit [Call_add_scale_bar path] (add_scale_bar_gcode env path)
      else returns [Print msg_invalid_path])"

section \<open>Concrete environments\<close>

text \<open>
  A Linux machine where every path exists, every image decodes to 1920 by 1440 pixels
  and no library call raises; \<open>d\<close> is a directory with three \<open>.tif\<close> and three
  \<open>.png\<close> files.
\<close>

definition lab_env :: env where
  "lab_env =
     \<lparr>path_exists = (\<lambda>p. True),
      path_isdir = (\<lambda>p. p = ''d''),
      path_isfile = (\<lambda>p. p \<noteq> ''d''),
      glob = (\<lambda>directory pattern.
                if pattern = ''*.tif''
                then [''d/s_10X_1X.tif'', ''d/s_10X_1X_scaled.tif'', ''d/a_scaled_v2.tif'']
                else [''d/b.png'', ''d/b_scaled.png'', ''d/c.png'']),
      imread = (\<lambda>p. Some \<lparr>shape0 = 1440, shape1 = 1920\<rparr>),
      platform = ''linux'',
      bundled_font = ''Arial.ttf'',
      textlength = (\<lambda>font size label. of_nat (size * length label) / 2),
      lib_raises = (\<lambda>p c. False)\<rparr>"

text \<open>The same machine with files that \<open>cv2.imread\<close> cannot decode.\<close>

definition undecodable_env :: env where
  "undecodable_env = lab_env\<lparr>imread := (\<lambda>p. None)\<rparr>"

text \<open>The same machine with images of 640 by 480 pixels.\<close>

definition small_env :: env where
  "small_env = lab_env\<lparr>imread := (\<lambda>p. Some \<lparr>shape0 = 480, shape1 = 640\<rparr>)\<rparr>"

text \<open>The same machine with no file at any path.\<close>

definition missing_env :: env where
  "missing_env = lab_env\<lparr>path_exists := (\<lambda>p. False)\<rparr>"

section \<open>The calibration table\<close>

lemma table_4X_1X:
  "scale_bar_size_and_label ''4X_1X'' = Some (159, ''300 '' @ mu @ ''m'')"
  by code_simp

lemma table_4X_16X:
  "scale_bar_size_and_label ''4X_1.6X'' = Some (169, ''200 '' @ mu @ ''m'')"
  by code_simp

lemma table_10X_1X:
  "scale_bar_size_and_label ''10X_1X'' = Some (198, ''150 '' @ mu @ ''m'')"
  by code_simp

lemma table_10X_16X:
  "scale_bar_size_and_label ''10X_1.6X'' = Some (211, ''100 '' @ mu @ ''m'')"
  by code_simp

lemma table_40X_1X:
  "scale_bar_size_and_label ''40X_1X'' = Some (270, ''50 '' @ mu @ ''m'')"
  by code_simp

lemma table_40X_16X:
  "scale_bar_size_and_label ''40X_1.6X'' = Some (259, ''30 '' @ mu @ ''m'')"
  by code_simp

lemma truncated_products:
  "py_int (of_int scale_pixel_4X_1X_100_um * 3) = 159"
  "py_int (of_int scale_pixel_4X_1X_100_um * (16 / 10 * 2)) = 169"
  "py_int (of_int scale_pixel_10X_1X_100_um * (15 / 10)) = 198"
  "py_int (of_int scale_pixel_10X_1X_100_um * (16 / 10)) = 211"
  "py_int (of_int scale_pixel_40X_1X_100_um * (5 / 10)) = 270"
  "py_int (of_int scale_pixel_40X_1X_100_um * (16 / 10 * (3 / 10))) = 259"
  by code_simp+

lemma IX71_displays_label: "displayed_label IX71 label = label"
  by (simp add: displayed_label_def IX71_def)

text \<open>
  C1. Each of the six scope keys resolves to the pair of the calibration table:
  \<open>4X_1X\<close> to 159 pixels and the label \<open>300 um\<close> (written with the Greek mu),
  \<open>4X_1.6X\<close> to 169 and \<open>200 um\<close>, \<open>10X_1X\<close> to 198 and \<open>150 um\<close>,
  \<open>10X_1.6X\<close> to 211 and \<open>100 um\<close>, \<open>40X_1X\<close> to 270 and \<open>50 um\<close>,
  \<open>40X_1.6X\<close> to 259 and \<open>30 um\<close>. The scope script displays the label as
  resolved, and each bar length, computed by the source in floating point, is the exact
  product of the base reference and the multiplier (3, 3.2, 1.5, 1.6, 0.5, 0.48)
  truncated toward zero.
\<close>

theorem scope_keys_resolve_to_table:
  "scale_bar_size_and_label ''4X_1X'' = Some (159, ''300 '' @ mu @ ''m'')
   \<and> scale_bar_size_and_label ''4X_1.6X'' = Some (169, ''200 '' @ mu @ ''m'')
   \<and> scale_bar_size_and_label ''10X_1X'' = Some (198, ''150 '' @ mu @ ''m'')
   \<and> scale_bar_size_and_label ''10X_1.6X'' = Some (211, ''100 '' @ mu @ ''m'')
   \<and> scale_bar_size_and_label ''40X_1X'' = Some (270, ''50 '' @ mu @ ''m'')
   \<and> scale_bar_size_and_label ''40X_1.6X'' = Some (259, ''30 '' @ mu @ ''m'')
   \<and> displayed_label IX71 label = label
   \<and> py_int (of_int scale_pixel_4X_1X_100_um * 3) = 159
   \<and> py_int (of_int scale_pixel_4X_1X_100_um * (16 / 10 * 2)) = 169
   \<and> py_int (of_int scale_pixel_10X_1X_100_um * (15 / 10)) = 198
   \<and> py_int (of_int scale_pixel_10X_1X_100_um * (16 / 10)) = 211
   \<and> py_int (of_int scale_pixel_40X_1X_100_um * (5 / 10)) = 270
   \<and> py_int (of_int scale_pixel_40X_1X_100_um * (16 / 10 * (3 / 10))) = 259"
  using table_4X_1X table_4X_16X table_10X_1X table_10X_16X table_40X_1X table_40X_16X
    IX71_displays_label truncated_products
  by blast

section \<open>Runs of the shared part\<close>

lemma fst_emit: "fst (emit evs rest) = evs @ fst rest"
  by (simp add: emit_def)


lemma lib_ok: "\<not> lib_raises env p c \<Longrightarrow> lib env p c evs rest = emit evs rest"
  by (simp add: lib_def)

lemma emit_returns: "emit evs (evs', None) = (evs @ evs', None)"
  by (simp add: emit_def)

lemma draw_and_save_ok:
  assumes "\<And>c. \<not> lib_raises env p c" and "font_path env = Some font"
  shows "draw_and_save K env p img n label0 =
    ([Rectangle (bar_position K img n)
        (fst (bar_position K img n) + n, snd (bar_position K img n) + scale_bar_thickness K)
        (scale_bar_color K),
      DrawText
        (text_position K (bar_position K img n) n
           (textlength env font (scale_bar_font_size K) (displayed_label K label0)))
        (displayed_label K label0) font (scale_bar_font_size K) (scale_bar_color K),
      Imwrite (output_path K p),
      Print (''Scale bar added to '' @ output_path K p)], None)"
  unfolding draw_and_save_def Let_def
  by (simp add: assms lib_ok returns_def emit_returns)




lemma calls_append: "calls (xs @ ys) = calls xs @ calls ys"
  by (induction xs rule: calls.induct) simp_all


lemma calls_lib:
  "calls (fst (lib env p c evs rest)) =
     (if lib_raises env p c then [] else calls evs @ calls (fst rest))"
  by (simp add: lib_def raises_def fst_emit calls_append)


lemma calls_draw_and_save: "calls (fst (draw_and_save K env p img n label0)) = []"
  by (simp add: draw_and_save_def Let_def calls_lib returns_def split: option.split)



lemma early_messages_differ:
  "msg_invalid_scope \<noteq> msg_not_exist" "msg_invalid_scope \<noteq> msg_must_be_tif"
  "msg_invalid_scope \<noteq> msg_size" "msg_detect_failed \<noteq> msg_not_exist"
  "msg_detect_failed \<noteq> msg_must_be_tif" "msg_detect_failed \<noteq> msg_size"
  by (simp_all add: msg_invalid_scope_def msg_detect_failed_def msg_not_exist_def
      msg_must_be_tif_def msg_size_def)

lemma IX71_missing:
  "\<not> path_exists env p \<Longrightarrow> add_scale_bar_IX71 env p st = ([Print msg_not_exist], None)"
  by (simp add: add_scale_bar_IX71_def returns_def)

lemma IX71_not_tif:
  "path_exists env p \<Longrightarrow> \<not> endswith p ''.tif''
   \<Longrightarrow> add_scale_bar_IX71 env p st = ([Print msg_must_be_tif], None)"
  by (simp add: add_scale_bar_IX71_def returns_def)

lemma IX71_bad_image:
  "path_exists env p \<Longrightarrow> endswith p ''.tif''
   \<Longrightarrow> imread env p = None
       \<or> (\<exists>img. imread env p = Some img \<and> \<not> (shape0 img = 1440 \<and> shape1 img = 1920))
   \<Longrightarrow> add_scale_bar_IX71 env p st = ([Print msg_size], None)"
  by (auto simp: add_scale_bar_IX71_def returns_def)

section \<open>Resolution of the scope type\<close>

text \<open>
  C2. Detection from the file name ignores case, but the comparison with the six keys does
  not, and the matched text is compared as it stands in the name. For the file
  \<open>sample_10x_1.6x.tif\<close> and no given scope type the pattern matches \<open>10x_1.6x\<close>;
  the script then reports an invalid scope type, draws nothing and writes nothing, where
  the claim promises the \<open>10X_1.6X\<close> entry.
\<close>

theorem lowercase_magnification_is_rejected:
  "detect_scope_type_from_filename ''sample_10x_1.6x.tif'' = ''10x_1.6x''
   \<and> add_scale_bar_IX71 lab_env ''sample_10x_1.6x.tif'' None =
       ([Print msg_invalid_scope], None)"
  by code_simp




section \<open>Order and reach of the checks\<close>

text \<open>
  C5. In the scope script an existing \<open>.tif\<close> file whose decoded image is not 1920
  wide by 1440 high yields the size message as the only effect of the run: nothing is
  drawn or written. The generic script has no size check: for an existing file with
  extension \<open>.png\<close> (in any case) that decodes to an image of any size, on a supported
  platform and with no library call raising, the bar is drawn, the output file is
  written and the success line is printed.
\<close>

theorem wrong_size_rejected_by_scope_script_only:
  "(path_exists env p \<and> endswith p ''.tif'' \<and> imread env p = Some img
      \<and> \<not> (shape1 img = 1920 \<and> shape0 img = 1440)
     \<longrightarrow> add_scale_bar_IX71 env p scope_type = ([Print msg_size], None))
   \<and> (path_exists env q \<and> endswith (lower q) ''.png'' \<and> imread env q = Some img'
      \<and> (\<forall>c. \<not> lib_raises env q c) \<and> font_path env = Some font
     \<longrightarrow> add_scale_bar_gcode env q =
         ([Rectangle (int (shape1 img') - 250, int (shape0 img') - 35)
             (int (shape1 img') - 10, int (shape0 img') - 10) (0, 0, 0),
           DrawText
             (text_position gcode (int (shape1 img') - 250, int (shape0 img') - 35) 240
                (textlength env font 50 []))
             [] font 50 (0, 0, 0),
           Imwrite (drop_last4 q @ ''_scaled.png''),
           Print (''Scale bar added to '' @ drop_last4 q @ ''_scaled.png'')], None))"
proof (intro conjI impI)
  assume "path_exists env p \<and> endswith p ''.tif'' \<and> imread env p = Some img
      \<and> \<not> (shape1 img = 1920 \<and> shape0 img = 1440)"
  then show "add_scale_bar_IX71 env p scope_type = ([Print msg_size], None)"
    by (auto simp: add_scale_bar_IX71_def returns_def)
next
  assume h: "path_exists env q \<and> endswith (lower q) ''.png'' \<and> imread env q = Some img'
      \<and> (\<forall>c. \<not> lib_raises env q c) \<and> font_path env = Some font"
  then have "add_scale_bar_gcode env q =
      draw_and_save gcode env q img' (scale_pixel_1000_um * 10) ''1 cm''"
    by (simp add: add_scale_bar_gcode_def)
  also have "\<dots> = ([Rectangle (int (shape1 img') - 250, int (shape0 img') - 35)
             (int (shape1 img') - 10, int (shape0 img') - 10) (0, 0, 0),
           DrawText
             (text_position gcode (int (shape1 img') - 250, int (shape0 img') - 35) 240
                (textlength env font 50 []))
             [] font 50 (0, 0, 0),
           Imwrite (drop_last4 q @ ''_scaled.png''),
           Print (''Scale bar added to '' @ drop_last4 q @ ''_scaled.png'')], None)"
    using h
    by (simp add: draw_and_save_ok [where font = font] bar_position_def displayed_label_def
        output_path_def gcode_def scale_pixel_1000_um_def)
  finally show "add_scale_bar_gcode env q =
         ([Rectangle (int (shape1 img') - 250, int (shape0 img') - 35)
             (int (shape1 img') - 10, int (shape0 img') - 10) (0, 0, 0),
           DrawText
             (text_position gcode (int (shape1 img') - 250, int (shape0 img') - 35) 240
                (textlength env font 50 []))
             [] font 50 (0, 0, 0),
           Imwrite (drop_last4 q @ ''_scaled.png''),
           Print (''Scale bar added to '' @ drop_last4 q @ ''_scaled.png'')], None)" .
qed

text \<open>C5 at an image of 640 by 480 pixels.\<close>

theorem wrong_size_witness:
  "add_scale_bar_IX71 small_env ''a.tif'' None = ([Print msg_size], None)
   \<and> written (fst (add_scale_bar_gcode small_env ''a.png'')) = [''a_scaled.png'']"
proof -
  have s: "path_exists small_env ''a.tif'' \<and> endswith ''a.tif'' ''.tif''
      \<and> imread small_env ''a.tif'' = Some \<lparr>shape0 = 480, shape1 = 640\<rparr>
      \<and> \<not> (shape1 \<lparr>shape0 = 480, shape1 = 640\<rparr> = 1920
           \<and> shape0 \<lparr>shape0 = 480, shape1 = 640\<rparr> = 1440)"
    by (simp add: small_env_def lab_env_def endswith_def)
  have g: "path_exists small_env ''a.png'' \<and> endswith (lower ''a.png'') ''.png''
      \<and> imread small_env ''a.png'' = Some \<lparr>shape0 = 480, shape1 = 640\<rparr>
      \<and> (\<forall>c. \<not> lib_raises small_env ''a.png'' c)
      \<and> font_path small_env =
          Some ''/usr/share/fonts/truetype/liberation/LiberationSans-Regular.ttf''"
    by (simp add: small_env_def lab_env_def endswith_def lower_def ascii_lower_def
        font_path_def startswith_def)
  from s g
    wrong_size_rejected_by_scope_script_only
      [where env = small_env and p = "''a.tif''" and q = "''a.png''"
         and img = "\<lparr>shape0 = 480, shape1 = 640\<rparr>"
         and img' = "\<lparr>shape0 = 480, shape1 = 640\<rparr>"
         and font = "''/usr/share/fonts/truetype/liberation/LiberationSans-Regular.ttf''"
         and scope_type = None]
  show ?thesis
    by (simp add: drop_last4_def)
qed

text \<open>
  C10. In the scope script the existence, extension and size checks come before the
  resolution of the scope type: a missing file, a wrong extension and an undecodable or
  wrongly sized image are each reported by their own message as the only effect of the
  run, whatever scope type is given; hence the invalid-scope message and the
  detection-failed message are printed only for an existing \<open>.tif\<close> file whose decoded
  image is 1920 by 1440.
\<close>

theorem earlier_checks_precede_resolution:
  "(\<not> path_exists env p
      \<longrightarrow> add_scale_bar_IX71 env p st = ([Print msg_not_exist], None))
   \<and> (path_exists env p \<and> \<not> endswith p ''.tif''
      \<longrightarrow> add_scale_bar_IX71 env p st = ([Print msg_must_be_tif], None))
   \<and> (path_exists env p \<and> endswith p ''.tif''
        \<and> (imread env p = None
            \<or> (\<exists>img. imread env p = Some img
                  \<and> \<not> (shape0 img = 1440 \<and> shape1 img = 1920)))
      \<longrightarrow> add_scale_bar_IX71 env p st = ([Print msg_size], None))
   \<and> (Print msg_invalid_scope \<in> set (fst (add_scale_bar_IX71 env p st))
        \<or> Print msg_detect_failed \<in> set (fst (add_scale_bar_IX71 env p st))
      \<longrightarrow> path_exists env p \<and> endswith p ''.tif''
          \<and> (\<exists>img. imread env p = Some img \<and> shape0 img = 1440 \<and> shape1 img = 1920))"
proof (intro conjI impI)
  assume h: "Print msg_invalid_scope \<in> set (fst (add_scale_bar_IX71 env p st))
        \<or> Print msg_detect_failed \<in> set (fst (add_scale_bar_IX71 env p st))"
  have 1: "path_exists env p"
  proof (rule ccontr)
    assume "\<not> path_exists env p"
    then have "fst (add_scale_bar_IX71 env p st) = [Print msg_not_exist]"
      by (simp add: IX71_missing)
    with h early_messages_differ show False
      by auto
  qed
  have 2: "endswith p ''.tif''"
  proof (rule ccontr)
    assume "\<not> endswith p ''.tif''"
    with 1 have "fst (add_scale_bar_IX71 env p st) = [Print msg_must_be_tif]"
      by (simp add: IX71_not_tif)
    with h early_messages_differ show False
      by auto
  qed
  have 3: "\<not> (imread env p = None
       \<or> (\<exists>img. imread env p = Some img \<and> \<not> (shape0 img = 1440 \<and> shape1 img = 1920)))"
  proof
    assume "imread env p = None
       \<or> (\<exists>img. imread env p = Some img \<and> \<not> (shape0 img = 1440 \<and> shape1 img = 1920))"
    with 1 2 have "fst (add_scale_bar_IX71 env p st) = [Print msg_size]"
      by (simp add: IX71_bad_image)
    with h early_messages_differ show False
      by auto
  qed
  from 1 show "path_exists env p" .
  from 2 show "endswith p ''.tif''" .
  from 3 show "\<exists>img. imread env p = Some img \<and> shape0 img = 1440 \<and> shape1 img = 1920"
    by (cases "imread env p") auto
qed (simp_all add: IX71_missing IX71_not_tif IX71_bad_image)

text \<open>C10 with the unknown scope type \<open>bogus\<close> at each of the four cases.\<close>

theorem earlier_checks_witness:
  "add_scale_bar_IX71 missing_env ''x.tif'' (Some ''bogus'') = ([Print msg_not_exist], None)
   \<and> add_scale_bar_IX71 lab_env ''x.png'' (Some ''bogus'') = ([Print msg_must_be_tif], None)
   \<and> add_scale_bar_IX71 small_env ''x.tif'' (Some ''bogus'') = ([Print msg_size], None)
   \<and> Print msg_invalid_scope \<in> set (fst (add_scale_bar_IX71 lab_env ''x.tif'' (Some ''bogus'')))
   \<and> path_exists lab_env ''x.tif'' \<and> endswith ''x.tif'' ''.tif''
   \<and> (\<exists>img. imread lab_env ''x.tif'' = Some img \<and> shape0 img = 1440 \<and> shape1 img = 1920)"
proof -
  have a: "\<not> path_exists missing_env ''x.tif''"
    by (simp add: missing_env_def lab_env_def)
  have b: "path_exists lab_env ''x.png'' \<and> \<not> endswith ''x.png'' ''.tif''"
    by (simp add: lab_env_def endswith_def)
  have c: "path_exists small_env ''x.tif'' \<and> endswith ''x.tif'' ''.tif''
      \<and> (imread small_env ''x.tif'' = None
          \<or> (\<exists>img. imread small_env ''x.tif'' = Some img
                \<and> \<not> (shape0 img = 1440 \<and> shape1 img = 1920)))"
    by (simp add: small_env_def lab_env_def endswith_def)
  have "add_scale_bar_IX71 lab_env ''x.tif'' (Some ''bogus'') = ([Print msg_invalid_scope], None)"
    by code_simp
  then have d: "Print msg_invalid_scope
      \<in> set (fst (add_scale_bar_IX71 lab_env ''x.tif'' (Some ''bogus'')))"
    by simp
  from a earlier_checks_precede_resolution [of missing_env "''x.tif''" "Some ''bogus''"]
  have A: "add_scale_bar_IX71 missing_env ''x.tif'' (Some ''bogus'') = ([Print msg_not_exist], None)"
    by blast
  from b earlier_checks_precede_resolution [of lab_env "''x.png''" "Some ''bogus''"]
  have B: "add_scale_bar_IX71 lab_env ''x.png'' (Some ''bogus'') = ([Print msg_must_be_tif], None)"
    by blast
  from c earlier_checks_precede_resolution [of small_env "''x.tif''" "Some ''bogus''"]
  have C: "add_scale_bar_IX71 small_env ''x.tif'' (Some ''bogus'') = ([Print msg_size], None)"
    by blast
  from d earlier_checks_precede_resolution [of lab_env "''x.tif''" "Some ''bogus''"]
  have D: "path_exists lab_env ''x.tif'' \<and> endswith ''x.tif'' ''.tif''
      \<and> (\<exists>img. imread lab_env ''x.tif'' = Some img \<and> shape0 img = 1440 \<and> shape1 img = 1920)"
    by blast
  from A B C d D show ?thesis
    by blast
qed

section \<open>Exceptions\<close>

text \<open>
  C4. The generic script does not test the result of \<open>cv2.imread\<close>. For an existing
  \<open>.png\<close> file that cannot be decoded, the first \<open>image.shape\<close> raises
  \<open>AttributeError\<close>; nothing catches it, so the run of the main block ends with the
  exception and a non-zero exit code, and a directory walk stops at that file. The scope
  script tests \<open>image is None\<close> at the same place.
\<close>

theorem undecodable_png_raises:
  "main_gcode undecodable_env ''bad.png'' =
     ([Call_add_scale_bar ''bad.png''], Some AttributeError)
   \<and> exit_code (main_gcode undecodable_env ''bad.png'') = 1
   \<and> main_gcode undecodable_env ''d'' =
     ([Call_add_scale_bar ''d/b.png''], Some AttributeError)"
  by code_simp

section \<open>Output paths\<close>








section \<open>Directory walks\<close>

lemma fst_then_run:
  "fst (then_run r rest) = (case snd r of None \<Rightarrow> fst r @ fst rest | Some e \<Rightarrow> fst r)"
  by (simp add: then_run_def fst_emit split: option.split)


lemma calls_add_scale_bar_gcode: "calls (fst (add_scale_bar_gcode env p)) = []"
  by (simp add: add_scale_bar_gcode_def returns_def raises_def calls_draw_and_save
      split: option.split)

lemma calls_annotate_IX71: "calls (fst (annotate_IX71 env p img st)) = []"
  by (simp add: annotate_IX71_def returns_def calls_draw_and_save split: option.split)

lemma calls_detect_and_annotate_IX71: "calls (fst (detect_and_annotate_IX71 env p img)) = []"
  by (simp add: detect_and_annotate_IX71_def Let_def returns_def calls_annotate_IX71)

lemma calls_add_scale_bar_IX71: "calls (fst (add_scale_bar_IX71 env p st)) = []"
  by (simp add: add_scale_bar_IX71_def returns_def calls_annotate_IX71
      calls_detect_and_annotate_IX71 split: option.split)

lemma calls_process_files_gcode:
  "set (calls (fst (process_files_gcode env n files)))
     \<subseteq> {f \<in> set files. \<not> contains ''_scaled'' f}"
proof (induction files arbitrary: n)
  case Nil
  show ?case
    by (simp add: returns_def)
next
  case (Cons f files)
  show ?case
  proof (cases "contains ''_scaled'' f")
    case True
    with Cons.IH [of n] show ?thesis
      by auto
  next
    case False
    with Cons.IH [of "n + 1"] show ?thesis
      by (auto simp: fst_emit fst_then_run calls_append calls_add_scale_bar_gcode
          split: option.splits)
  qed
qed

lemma calls_process_files_IX71:
  "set (calls (fst (process_files_IX71 env st files)))
     \<subseteq> {f \<in> set files. \<not> endswith f ''_scaled.tif''}"
proof (induction files)
  case Nil
  show ?case
    by (simp add: returns_def)
next
  case (Cons f files)
  then show ?case
    by (auto simp: fst_emit fst_then_run calls_append calls_add_scale_bar_IX71
        split: option.splits)
qed

text \<open>
  C3, as amended. Every file a directory walk passes to \<open>add_scale_bar\<close> is one of
  the files listed by \<open>glob\<close>; in the generic script its path does not contain
  \<open>_scaled\<close>, and in the scope script its path does not end with \<open>_scaled.tif\<close>.
\<close>

theorem walks_skip_marked_files:
  "(\<forall>f \<in> set (calls (fst (process_directory_gcode env d))).
       f \<in> set (glob env d ''*.png'') \<and> \<not> contains ''_scaled'' f)
   \<and> (\<forall>f \<in> set (calls (fst (process_directory_IX71 env d st))).
       f \<in> set (glob env d ''*.tif'') \<and> \<not> endswith f ''_scaled.tif'')"
proof
  show "\<forall>f \<in> set (calls (fst (process_directory_gcode env d))).
       f \<in> set (glob env d ''*.png'') \<and> \<not> contains ''_scaled'' f"
    using calls_process_files_gcode [of env 0 "glob env d ''*.png''"]
    by (auto simp: process_directory_gcode_def Let_def returns_def)
next
  show "\<forall>f \<in> set (calls (fst (process_directory_IX71 env d st))).
       f \<in> set (glob env d ''*.tif'') \<and> \<not> endswith f ''_scaled.tif''"
    using calls_process_files_IX71 [of env st "glob env d ''*.tif''"]
    by (auto simp: process_directory_IX71_def)
qed

text \<open>The amended C3 in the directory \<open>d\<close>.\<close>

theorem walks_skip_witness:
  "calls (fst (process_directory_gcode lab_env ''d'')) = [''d/b.png'', ''d/c.png'']
   \<and> \<not> contains ''_scaled'' ''d/b.png'' \<and> \<not> contains ''_scaled'' ''d/c.png''
   \<and> calls (fst (process_directory_IX71 lab_env ''d'' None))
       = [''d/s_10X_1X.tif'', ''d/a_scaled_v2.tif'']
   \<and> \<not> endswith ''d/s_10X_1X.tif'' ''_scaled.tif''
   \<and> \<not> endswith ''d/a_scaled_v2.tif'' ''_scaled.tif''"
proof -
  have 1: "calls (fst (process_directory_gcode lab_env ''d'')) = [''d/b.png'', ''d/c.png'']"
    by code_simp
  have 2: "calls (fst (process_directory_IX71 lab_env ''d'' None))
       = [''d/s_10X_1X.tif'', ''d/a_scaled_v2.tif'']"
    by code_simp
  from walks_skip_marked_files [of lab_env "''d''" None] 1 2
  show ?thesis
    by simp
qed

text \<open>
  C3 as stated fails in the scope script, whose walk skips only the paths that end with
  \<open>_scaled.tif\<close>: \<open>d/a_scaled_v2.tif\<close> contains the marker and is passed to
  \<open>add_scale_bar\<close>, which writes \<open>d/a_scaled_v2_scaled.tif\<close>.
\<close>

theorem scope_walk_processes_marked_file:
  "contains ''_scaled'' ''d/a_scaled_v2.tif''
   \<and> calls (fst (process_directory_IX71 lab_env ''d'' (Some ''4X_1X'')))
       = [''d/s_10X_1X.tif'', ''d/a_scaled_v2.tif'']
   \<and> written (fst (process_directory_IX71 lab_env ''d'' (Some ''4X_1X'')))
       = [''d/s_10X_1X_scaled.tif'', ''d/a_scaled_v2_scaled.tif'']"
  by code_simp





end
